theory Spec2Isabelle
  imports Complex_Main "HOL-Library.AList" "HOL-Library.Word"
begin

section \<open>The toolbar view of the renderer (zettlr-toolbar.js)\<close>

text \<open>
  The class \<open>ZettlrToolbar\<close> builds its DOM children from a JSON template, registers
  jQuery listeners and forwards commands to the renderer object it was given. The model
  passes the view's state explicitly: every listener and every method is a function from
  the state before to the state after, and a method with a \<open>return\<close> statement gives the
  returned value as well.

  The text of the search bar (the value of the input, the candidate names, the search
  term) is a list of UTF-16 code units, which is what \<open>length\<close> and \<open>substr\<close> count.
  Class names, attribute values, translation identifiers and translated texts are only
  stored, compared and split at white space; they are \<open>string\<close>s. The integer arguments
  are \<open>int\<close>s. What JavaScript's own library computes (\<open>toLowerCase\<close>, the arithmetic of
  numbers, \<open>Math.cos\<close> and \<open>Math.sin\<close>) is taken as a parameter, like the functions the
  file imports.

  The jQuery calls are modelled by what they do to the elements they select. The tooltips
  that \<open>tippy\<close> attaches to the buttons at the end of \<open>_act\<close> are left out: they touch
  neither the state described here nor the renderer.
\<close>

type_synonym jsstring = "16 word list"

subsection \<open>jQuery class lists\<close>

definition html_space :: "char \<Rightarrow> bool" where
  "html_space c = (c = CHR '' '' \<or> c = CHR 0x09 \<or> c = CHR 0x0A \<or> c = CHR 0x0C \<or> c = CHR 0x0D)"

text \<open>The class names of a string given to \<open>addClass\<close>: its maximal runs without white space.\<close>

fun split_ws :: "string \<Rightarrow> string \<Rightarrow> string list" where
  "split_ws cur [] = (if cur = [] then [] else [cur])"
| "split_ws cur (c # cs) =
     (if html_space c then (if cur = [] then split_ws [] cs else cur # split_ws [] cs)
      else split_ws (cur @ [c]) cs)"

definition class_tokens :: "string option \<Rightarrow> string list" where
  "class_tokens v = (case v of None \<Rightarrow> [] | Some s \<Rightarrow> split_ws [] s)"

definition hasClass :: "string \<Rightarrow> string list \<Rightarrow> bool" where
  "hasClass c cs = (c \<in> set cs)"

definition addClass1 :: "string \<Rightarrow> string list \<Rightarrow> string list" where
  "addClass1 c cs = (if c \<in> set cs then cs else cs @ [c])"

text \<open>\<open>addClass(v)\<close>: every class name of \<open>v\<close> that is not there yet is appended; an
  undefined argument (\<open>None\<close>) adds nothing.\<close>

definition addClass :: "string option \<Rightarrow> string list \<Rightarrow> string list" where
  "addClass v cs = fold addClass1 (class_tokens v) cs"

definition removeClass :: "string \<Rightarrow> string list \<Rightarrow> string list" where
  "removeClass c cs = filter (\<lambda>x. x \<noteq> c) cs"

definition toggleClass :: "string \<Rightarrow> string list \<Rightarrow> string list" where
  "toggleClass c cs = (if hasClass c cs then removeClass c cs else addClass1 c cs)"

subsection \<open>DOM nodes and attributes\<close>

datatype node =
  Element (tag: string) (classes: "string list") (attrs: "(string \<times> string) list")
    (inner: "node list")
| TextNode jsstring

text \<open>\<open>attr(name)\<close> reads an attribute (\<open>None\<close> is JavaScript's \<open>undefined\<close>);
  \<open>attr(name, v)\<close> with an undefined or null \<open>v\<close> leaves a fresh element without it.\<close>

definition get_attr :: "string \<Rightarrow> node \<Rightarrow> string option" where
  "get_attr name n = (case n of Element t cs as ks \<Rightarrow> map_of as name | TextNode s \<Rightarrow> None)"

definition set_attr :: "string \<Rightarrow> string option \<Rightarrow> node \<Rightarrow> node" where
  "set_attr name v n =
     (case n of
        Element t cs as ks \<Rightarrow>
          (case v of None \<Rightarrow> n
           | Some s \<Rightarrow> Element t cs (AList.update name s as) ks)
      | TextNode s \<Rightarrow> n)"

definition add_class :: "string option \<Rightarrow> node \<Rightarrow> node" where
  "add_class v n =
     (case n of Element t cs as ks \<Rightarrow> Element t (addClass v cs) as ks | TextNode s \<Rightarrow> n)"

definition set_html :: "node list \<Rightarrow> node \<Rightarrow> node" where
  "set_html ks n = (case n of Element t cs as ks0 \<Rightarrow> Element t cs as ks | TextNode s \<Rightarrow> n)"

definition node_hasClass :: "string \<Rightarrow> node \<Rightarrow> bool" where
  "node_hasClass c n = (case n of Element t cs as ks \<Rightarrow> hasClass c cs | TextNode s \<Rightarrow> False)"

subsection \<open>What the view is given\<close>

text \<open>
  A descriptor of the template \<open>assets/toolbar/toolbar.json\<close>. The file is not part of
  the sources, so the template is a parameter; a key the JSON object lacks reads as
  \<open>undefined\<close> (\<open>None\<close>).
\<close>

record descriptor =
  role :: string
  cls :: "string option"
  command :: "string option"
  content :: "string option"
  title :: "string option"

text \<open>The second argument of \<open>handleEvent\<close>: an attribute's string, the object \<open>{}\<close>, or
  no argument at all.\<close>

datatype js_content = ContentString string | EmptyObject | NoContent

text \<open>The calls the view makes on \<open>this._renderer\<close> (and on the body object it returns).\<close>

datatype renderer_call =
  HandleEvent string js_content
| ExitSearch
| BeginSearch jsstring
| GetFilesInDirectory
| GetBody
| ShowFileInfo

subsection \<open>Numbers of the progress arc\<close>

text \<open>
  A JavaScript number is kept by the real number it stands for, or as an infinity or NaN
  (the two zeros are one: the path string prints both as \<open>0\<close>). The operations on numbers
  round, and \<open>Math.cos\<close> and \<open>Math.sin\<close> are approximations the engine chooses; none of
  them is defined here.
\<close>

datatype jsnum = Fin real | PosInf | NegInf | NaN

subsection \<open>The environment\<close>

text \<open>
  The functions and data the toolbar imports, asks the renderer for, or finds in
  JavaScript's library:
  \<^item> the template; \<open>trans\<close> of \<open>i18n.js\<close> (an identifier and its arguments);
    \<open>localiseNumber\<close> of \<open>zettlr-helpers.js\<close>;
  \<^item> the list \<open>renderer.getFilesInDirectory()\<close> answers;
  \<^item> \<open>String.prototype.toLowerCase\<close>;
  \<^item> on numbers: \<open>item / itemCnt\<close> (\<open>js_quot\<close>), \<open>progress > 0.5\<close> (\<open>js_gt_half\<close>),
    \<open>2 * Math.PI * progress\<close> (\<open>js_two_pi_times\<close>), \<open>Math.cos\<close> and \<open>Math.sin\<close>.
\<close>

record env =
  tpl :: "descriptor list"
  trans :: "string option \<Rightarrow> string list \<Rightarrow> string"
  localiseNumber :: "int \<Rightarrow> string"
  getFilesInDirectory :: "jsstring list"
  toLowerCase :: "jsstring \<Rightarrow> jsstring"
  js_quot :: "int \<Rightarrow> int \<Rightarrow> jsnum"
  js_gt_half :: "jsnum \<Rightarrow> bool"
  js_two_pi_times :: "jsnum \<Rightarrow> jsnum"
  Math_cos :: "jsnum \<Rightarrow> jsnum"
  Math_sin :: "jsnum \<Rightarrow> jsnum"

text \<open>The \<open>d\<close> attribute of the indicator's path: empty as created, or the string
  \<open>M 1 0 A 1 1 0 ${large} 1 ${x} ${y} L 0 0\<close>, kept by the three values it is built from.\<close>

datatype path_data = EmptyPath | Arc nat jsnum jsnum

subsection \<open>The state of the view\<close>

text \<open>
  \<open>div_classes\<close> and \<open>div_children\<close> are the class list of \<open>#toolbar\<close> and the children
  \<open>_build\<close> gave it. The \<open>searchbar_\<close> fields are the value, the selection range and the
  focus of the input \<open>this._searchbar\<close> selects, \<open>fileInfo_text\<close> the text of
  \<open>this._fileInfo\<close>, the \<open>searchProgress_\<close> fields the class list of the indicator
  \<open>this._searchProgress\<close> and the \<open>d\<close> attribute of its \<open>.indicator-value\<close> path.
  \<open>autocomplete\<close> and \<open>oldval\<close> are the private fields of the same names.

  Two fields are not the view's own. \<open>renderer_calls\<close> logs, in order, the calls made on
  the renderer. \<open>searchbar_focused\<close> tells whether the input is the document's active
  element: the keyboard focus belongs to the document, and giving it to the input takes
  it from the element that had it.

  The fields of the input and of the file information describe a toolbar whose template
  has a search bar and a file information element; without them the jQuery handles are
  empty, their listeners are never registered and the calls on them do nothing.
\<close>

record toolbar =
  div_classes :: "string list"
  div_children :: "node list"
  searchbar_val :: jsstring
  searchbar_sel :: "nat \<times> nat"
  searchbar_focused :: bool
  searchbar_placeholder :: string
  fileInfo_text :: string
  searchProgress_classes :: "string list"
  searchProgress_d :: path_data
  autocomplete :: "jsstring list"
  oldval :: jsstring
  renderer_calls :: "renderer_call list"

definition call_renderer :: "renderer_call \<Rightarrow> toolbar \<Rightarrow> toolbar" where
  "call_renderer c t = t\<lparr>renderer_calls := renderer_calls t @ [c]\<rparr>"

subsection \<open>\<open>_build\<close>\<close>

text \<open>The nodes \<open>child.html\<close> makes of its markup, for the search bar and for the pomodoro
  timer. The entity \<open>&times;\<close> is parsed to the one character U+00D7.\<close>

definition searchbar_html :: "node list" where
  "searchbar_html =
     [Element ''input'' [] [(''type'', ''text'')] [],
      Element ''div'' [''end-search''] [] [TextNode [0xD7]]]"

definition pomodoro_html :: "node list" where
  "pomodoro_html =
     [Element ''svg'' [] [(''width'', ''20''), (''height'', ''20''), (''viewBox'', ''-1 -1 2 2'')]
        [Element ''circle'' [''pomodoro-meter'']
           [(''cx'', ''0''), (''cy'', ''0''), (''r'', ''1''),
            (''shape-rendering'', ''geometricPrecision'')] [],
         Element ''path'' [''pomodoro-value'']
           [(''d'', []), (''fill'', []), (''shape-rendering'', ''geometricPrecision'')] []]]"

text \<open>The body of the loop of \<open>_build\<close>: the child made for one descriptor.\<close>

definition build_child :: "env \<Rightarrow> descriptor \<Rightarrow> node" where
  "build_child e d =
     (let child = add_class (Some (role d)) (Element ''div'' [] [] []) in
      if role d = ''button'' then
        set_attr ''title'' (Some (trans e (title d) []))
          (set_attr ''data-content'' (content d)
            (set_attr ''data-command'' (command d)
              (add_class (cls d) child)))
      else if role d = ''searchbar'' then set_html searchbar_html child
      else if role d = ''pomodoro'' then
        set_html pomodoro_html
          (set_attr ''data-command'' (Some ''pomodoro'')
            (add_class (Some ''button'') child))
      else child)"

fun build_loop :: "env \<Rightarrow> descriptor list \<Rightarrow> toolbar \<Rightarrow> toolbar" where
  "build_loop e [] t = t"
| "build_loop e (d # ds) t =
     build_loop e ds (t\<lparr>div_children := div_children t @ [build_child e d]\<rparr>)"

definition build :: "env \<Rightarrow> toolbar \<Rightarrow> toolbar" where
  "build e t = build_loop e (tpl e) t"

subsection \<open>The search bar input\<close>

text \<open>\<open>val(v)\<close> writes the value; the browser then puts the cursor behind it.\<close>

definition searchbar_set_val :: "jsstring \<Rightarrow> toolbar \<Rightarrow> toolbar" where
  "searchbar_set_val v t = t\<lparr>searchbar_val := v, searchbar_sel := (length v, length v)\<rparr>"

text \<open>\<open>select()\<close> selects the whole value.\<close>

definition searchbar_select :: "toolbar \<Rightarrow> toolbar" where
  "searchbar_select t = t\<lparr>searchbar_sel := (0, length (searchbar_val t))\<rparr>"

definition setSelectionRange :: "nat \<Rightarrow> nat \<Rightarrow> toolbar \<Rightarrow> toolbar" where
  "setSelectionRange a b t = t\<lparr>searchbar_sel := (a, b)\<rparr>"

text \<open>The listeners of \<open>focus\<close> and \<open>blur\<close> registered in \<open>_act\<close>.\<close>

definition on_focus :: "env \<Rightarrow> toolbar \<Rightarrow> toolbar" where
  "on_focus e t =
     (let t1 = searchbar_select t;
          t2 = call_renderer GetFilesInDirectory t1
      in t2\<lparr>autocomplete := getFilesInDirectory e\<rparr>)"

definition on_blur :: "toolbar \<Rightarrow> toolbar" where
  "on_blur t = t\<lparr>autocomplete := [], oldval := []\<rparr>"

text \<open>
  The input gaining and losing the focus, by the user or by jQuery's \<open>focus()\<close> and
  \<open>blur()\<close>: jQuery runs the registered listeners in either case, also when the input
  already has (or already lacks) the focus.
\<close>

definition searchbar_focus :: "env \<Rightarrow> toolbar \<Rightarrow> toolbar" where
  "searchbar_focus e t = on_focus e (t\<lparr>searchbar_focused := True\<rparr>)"

definition searchbar_blur :: "toolbar \<Rightarrow> toolbar" where
  "searchbar_blur t = on_blur (t\<lparr>searchbar_focused := False\<rparr>)"

subsection \<open>The listeners of \<open>_act\<close>\<close>

text \<open>The test of the loop. \<open>name.substr(0, n)\<close> and \<open>name.substr(n)\<close> are
  \<open>take n name\<close> and \<open>drop n name\<close>: both stop at the end of a shorter name.\<close>

definition name_matches :: "env \<Rightarrow> jsstring \<Rightarrow> jsstring \<Rightarrow> bool" where
  "name_matches e typed name =
     (toLowerCase e (take (length typed) name) = toLowerCase e typed)"

text \<open>The loop over \<open>this._autocomplete\<close> in the keyup listener, left at the first match.
  An input element has \<open>setSelectionRange\<close>, so the guarded call is made.\<close>

fun autocomplete_loop :: "env \<Rightarrow> jsstring list \<Rightarrow> toolbar \<Rightarrow> toolbar" where
  "autocomplete_loop e [] t = t"
| "autocomplete_loop e (name # names) t =
     (if name_matches e (oldval t) name then
        (let t1 = searchbar_set_val (oldval t @ drop (length (oldval t)) name) t;
             t2 = searchbar_select t1;
             t3 = searchbar_focus e t2
         in setSelectionRange (length (oldval t3)) (length (searchbar_val t3)) t3)
      else autocomplete_loop e names t)"

definition on_keyup :: "env \<Rightarrow> nat \<Rightarrow> toolbar \<Rightarrow> toolbar" where
  "on_keyup e which t =
     (if which = 27 then
        call_renderer ExitSearch (searchbar_set_val [] (searchbar_blur t))
      else if which = 13 then
        searchbar_select (call_renderer (BeginSearch (searchbar_val t)) t)
      else if which = 8 \<or> which = 46 then t
      else if searchbar_val t = [] \<or> searchbar_val t = oldval t then t
      else
        (let t1 = t\<lparr>oldval := searchbar_val t\<rparr>;
             t2 = autocomplete_loop e (autocomplete t1) t1
         in t2\<lparr>oldval := searchbar_val t2\<rparr>))"

definition on_end_search_click :: "toolbar \<Rightarrow> toolbar" where
  "on_end_search_click t = call_renderer ExitSearch (searchbar_set_val [] (searchbar_blur t))"

definition on_fileInfo_click :: "toolbar \<Rightarrow> toolbar" where
  "on_fileInfo_click t = call_renderer ShowFileInfo (call_renderer GetBody t)"

text \<open>\<open>a || b\<close> on an attribute: the empty string is falsy, like \<open>undefined\<close>.\<close>

definition button_command :: "node \<Rightarrow> string" where
  "button_command elem =
     (case get_attr ''data-command'' elem of
        None \<Rightarrow> ''unknown-command''
      | Some s \<Rightarrow> if s = [] then ''unknown-command'' else s)"

definition button_content :: "node \<Rightarrow> js_content" where
  "button_content elem =
     (case get_attr ''data-content'' elem of
        None \<Rightarrow> EmptyObject
      | Some s \<Rightarrow> if s = [] then EmptyObject else ContentString s)"

definition on_button_click :: "node \<Rightarrow> toolbar \<Rightarrow> toolbar" where
  "on_button_click elem t =
     call_renderer (HandleEvent (button_command elem) (button_content elem)) t"

definition on_dblclick :: "toolbar \<Rightarrow> toolbar" where
  "on_dblclick t = call_renderer (HandleEvent ''app-maximise'' NoContent) t"

text \<open>
  A click on an element of the toolbar runs the click listeners registered on it, in the
  order of their registration: the one of \<open>.end-search\<close>, the one of \<open>.file-info\<close> and
  the one of \<open>.button\<close>.
\<close>

definition click :: "node \<Rightarrow> toolbar \<Rightarrow> toolbar" where
  "click elem t =
     (let t1 = (if node_hasClass ''end-search'' elem then on_end_search_click t else t);
          t2 = (if node_hasClass ''file-info'' elem then on_fileInfo_click t1 else t1)
      in if node_hasClass ''button'' elem then on_button_click elem t2 else t2)"

subsection \<open>The constructor\<close>

text \<open>
  The view starts from the \<open>#toolbar\<close> element as the page has it (its class list and
  children), runs \<open>_build\<close>, sets the placeholder of the fresh input and creates the
  progress indicator, which it puts behind the search bar, with the class \<open>hidden\<close> and
  an empty path. The candidate list and the old value start empty; \<open>_act\<close> then registers
  the listeners, which the functions above model.
\<close>

definition new_toolbar :: "env \<Rightarrow> string list \<Rightarrow> node list \<Rightarrow> toolbar" where
  "new_toolbar e cs ks =
     (let t0 = \<lparr>div_classes = cs, div_children = ks, searchbar_val = [],
                searchbar_sel = (0, 0), searchbar_focused = False,
                searchbar_placeholder = [], fileInfo_text = [],
                searchProgress_classes = [], searchProgress_d = EmptyPath,
                autocomplete = [], oldval = [], renderer_calls = []\<rparr>;
          t1 = build e t0;
          t2 = t1\<lparr>searchbar_placeholder := trans e (Some ''gui.find_placeholder'') []\<rparr>;
          t3 = t2\<lparr>searchProgress_classes := [''hidden''], searchProgress_d := EmptyPath\<rparr>
      in t3\<lparr>autocomplete := [], oldval := []\<rparr>)"

subsection \<open>The public methods\<close>

text \<open>
  What a method returns: the view itself (\<open>return this\<close>) or \<open>undefined\<close>. A method
  with a \<open>return\<close> statement gives the returned value and the state after it; the state
  after is the state of the object \<open>This\<close> stands for. A method without one gives the
  state only.
\<close>

datatype returned = This | Undefined

definition hideWordCount :: "toolbar \<Rightarrow> returned \<times> toolbar" where
  "hideWordCount t = (This, t\<lparr>fileInfo_text := []\<rparr>)"

definition updateWordCount :: "env \<Rightarrow> int \<Rightarrow> toolbar \<Rightarrow> returned \<times> toolbar" where
  "updateWordCount e words t =
     (if words = 0 then hideWordCount t
      else (Undefined,
            t\<lparr>fileInfo_text := trans e (Some ''gui.words'') [localiseNumber e words]\<rparr>))"

definition toggleDistractionFree :: "toolbar \<Rightarrow> returned \<times> toolbar" where
  "toggleDistractionFree t = (This, t\<lparr>div_classes := toggleClass ''mute'' (div_classes t)\<rparr>)"

definition focusSearch :: "env \<Rightarrow> toolbar \<Rightarrow> returned \<times> toolbar" where
  "focusSearch e t = (This, searchbar_select (searchbar_focus e t))"

definition setSearch :: "jsstring \<Rightarrow> toolbar \<Rightarrow> toolbar" where
  "setSearch term0 t = searchbar_set_val term0 t"

definition progress_arc :: "env \<Rightarrow> int \<Rightarrow> int \<Rightarrow> path_data" where
  "progress_arc e item itemCnt =
     (let progress = js_quot e item itemCnt;
          large = (if js_gt_half e progress then 1 else 0);
          x = Math_cos e (js_two_pi_times e progress);
          y = Math_sin e (js_two_pi_times e progress)
      in Arc large x y)"

definition searchProgress :: "env \<Rightarrow> int \<Rightarrow> int \<Rightarrow> toolbar \<Rightarrow> toolbar" where
  "searchProgress e item itemCnt t =
     (if hasClass ''hidden'' (searchProgress_classes t) then
        t\<lparr>searchProgress_classes := removeClass ''hidden'' (searchProgress_classes t)\<rparr>
      else t\<lparr>searchProgress_d := progress_arc e item itemCnt\<rparr>)"

definition endSearch :: "toolbar \<Rightarrow> toolbar" where
  "endSearch t = t\<lparr>searchProgress_classes := addClass1 ''hidden'' (searchProgress_classes t)\<rparr>"

subsection \<open>Runs of the view\<close>

text \<open>
  What can happen to a constructed view: the user's events on its elements (typing into
  the input changes its value and leaves the cursor behind it), and calls of its public
  methods (whose returned values play no part in what happens next). Each comes with the
  environment of that moment.
\<close>

datatype event =
  KeyUp nat
| Typed jsstring
| Click node
| DblClick
| Focus
| Blur
| UpdateWordCount int
| HideWordCount
| ToggleDistractionFree
| FocusSearch
| SetSearch jsstring
| SearchProgress int int
| EndSearch

fun step :: "env \<times> event \<Rightarrow> toolbar \<Rightarrow> toolbar" where
  "step (e, KeyUp which) t = on_keyup e which t"
| "step (e, Typed v) t = searchbar_set_val v t"
| "step (e, Click elem) t = click elem t"
| "step (e, DblClick) t = on_dblclick t"
| "step (e, Focus) t = searchbar_focus e t"
| "step (e, Blur) t = searchbar_blur t"
| "step (e, UpdateWordCount words) t = snd (updateWordCount e words t)"
| "step (e, HideWordCount) t = snd (hideWordCount t)"
| "step (e, ToggleDistractionFree) t = snd (toggleDistractionFree t)"
| "step (e, FocusSearch) t = snd (focusSearch e t)"
| "step (e, SetSearch v) t = setSearch v t"
| "step (e, SearchProgress item itemCnt) t = searchProgress e item itemCnt t"
| "step (e, EndSearch) t = endSearch t"

definition run :: "(env \<times> event) list \<Rightarrow> toolbar \<Rightarrow> toolbar" where
  "run evs t = fold step evs t"

section \<open>A concrete view\<close>

text \<open>
  A template with a button, the search bar, the file information and the pomodoro timer,
  a translation that answers the identifier followed by its arguments, and a directory of
  three files. \<open>ascii\<close> gives the code units of a string of ASCII characters.
\<close>

definition ascii :: "string \<Rightarrow> jsstring" where
  "ascii s = map of_char s"

definition demo_tpl :: "descriptor list" where
  "demo_tpl =
     [\<lparr>role = ''button'', cls = Some ''file-new'', command = Some ''file-new'',
       content = Some ''{}'', title = Some ''toolbar.file_new''\<rparr>,
      \<lparr>role = ''searchbar'', cls = None, command = None, content = None, title = None\<rparr>,
      \<lparr>role = ''file-info'', cls = None, command = None, content = None, title = None\<rparr>,
      \<lparr>role = ''pomodoro'', cls = None, command = None, content = None, title = None\<rparr>]"

definition demo_trans :: "string option \<Rightarrow> string list \<Rightarrow> string" where
  "demo_trans k args = concat ((case k of None \<Rightarrow> [] | Some s \<Rightarrow> s) # args)"

text \<open>
  A sample of \<open>toLowerCase\<close>: it lowers the letters A to Z and the capital letters of
  Latin-1 (U+00C0 to U+00DE without the sign U+00D7), as JavaScript does on strings of
  code units below U+0100, and keeps every other code unit.
\<close>

definition sample_lower_unit :: "16 word \<Rightarrow> 16 word" where
  "sample_lower_unit c =
     (if (0x41 \<le> c \<and> c \<le> 0x5A) \<or> (0xC0 \<le> c \<and> c \<le> 0xDE \<and> c \<noteq> 0xD7) then c + 0x20
      else c)"

definition sample_toLowerCase :: "jsstring \<Rightarrow> jsstring" where
  "sample_toLowerCase s = map sample_lower_unit s"

text \<open>
  A sample of the arithmetic: the operations without rounding. JavaScript computes the
  same where nothing is rounded, as in \<open>0 / 4\<close>, \<open>3 / 4\<close>, \<open>0.75 > 0.5\<close>, \<open>2 * Math.PI * 0\<close>,
  \<open>Math.cos(0)\<close> and \<open>Math.sin(0)\<close>; the examples assert numbers at these only.
\<close>

definition sample_quot :: "int \<Rightarrow> int \<Rightarrow> jsnum" where
  "sample_quot a b =
     (if b \<noteq> 0 then Fin (real_of_int a / real_of_int b)
      else if a > 0 then PosInf else if a < 0 then NegInf else NaN)"

definition sample_gt_half :: "jsnum \<Rightarrow> bool" where
  "sample_gt_half p =
     (case p of Fin q \<Rightarrow> q > 1 / 2 | PosInf \<Rightarrow> True | NegInf \<Rightarrow> False | NaN \<Rightarrow> False)"

definition sample_two_pi_times :: "jsnum \<Rightarrow> jsnum" where
  "sample_two_pi_times p = (case p of Fin q \<Rightarrow> Fin (2 * pi * q) | other \<Rightarrow> other)"

definition sample_cos :: "jsnum \<Rightarrow> jsnum" where
  "sample_cos p = (case p of Fin q \<Rightarrow> Fin (cos q) | other \<Rightarrow> NaN)"

definition sample_sin :: "jsnum \<Rightarrow> jsnum" where
  "sample_sin p = (case p of Fin q \<Rightarrow> Fin (sin q) | other \<Rightarrow> NaN)"

definition demo_env :: env where
  "demo_env =
     \<lparr>tpl = demo_tpl, trans = demo_trans, localiseNumber = (\<lambda>n. if n = 5 then ''5'' else ''?''),
      getFilesInDirectory = map ascii [''notes.md'', ''Readme.md'', ''reading-list.md''],
      toLowerCase = sample_toLowerCase, js_quot = sample_quot, js_gt_half = sample_gt_half,
      js_two_pi_times = sample_two_pi_times, Math_cos = sample_cos, Math_sin = sample_sin\<rparr>"

definition demo_toolbar :: toolbar where
  "demo_toolbar = new_toolbar demo_env [] []"

text \<open>
  The button \<open>_build\<close> makes for the first descriptor of the template, the button it makes
  for a descriptor whose command and content are empty strings, the view after the user
  has focused the input and typed \<open>re\<close>, and the view after the user has focused the
  input in a directory with the files \<open>notes.md\<close> and \<open>Apfel.md\<close> (with the umlaut U+00C4
  for its first letter) and typed the small umlaut U+00E4.
\<close>

definition demo_button :: node where
  "demo_button = build_child demo_env (hd demo_tpl)"

definition demo_empty_button :: node where
  "demo_empty_button =
     build_child demo_env
       \<lparr>role = ''button'', cls = None, command = Some [], content = Some [],
        title = Some ''toolbar.empty''\<rparr>"

definition demo_typed :: toolbar where
  "demo_typed = searchbar_set_val (ascii ''re'') (searchbar_focus demo_env demo_toolbar)"

definition demo_umlaut :: toolbar where
  "demo_umlaut =
     searchbar_set_val [0xE4]
       (searchbar_focus
          (demo_env\<lparr>getFilesInDirectory := [ascii ''notes.md'', 0xC4 # ascii ''pfel.md'']\<rparr>)
          demo_toolbar)"

section \<open>Observations used in the claims\<close>

text \<open>The calls a listener or method added to the log, and the \<open>handleEvent\<close> calls
  among a list of calls, with their arguments.\<close>

definition new_calls :: "toolbar \<Rightarrow> toolbar \<Rightarrow> renderer_call list" where
  "new_calls t t' = drop (length (renderer_calls t)) (renderer_calls t')"

fun handle_events :: "renderer_call list \<Rightarrow> (string \<times> js_content) list" where
  "handle_events [] = []"
| "handle_events (HandleEvent c k # cs) = (c, k) # handle_events cs"
| "handle_events (other # cs) = handle_events cs"

text \<open>The candidate list holds names only while the input has the focus.\<close>

definition focus_scoped :: "toolbar \<Rightarrow> bool" where
  "focus_scoped t = (autocomplete t = [] \<or> searchbar_focused t)"

section \<open>Helper facts\<close>

lemma set_fold_addClass1: "set (fold addClass1 ts cs) = set ts \<union> set cs"
  by (induction ts arbitrary: cs) (auto simp: addClass1_def)

lemma build_loop_frame:
  "build_loop e ds t = t\<lparr>div_children := div_children t @ map (build_child e) ds\<rparr>"
  by (induction ds arbitrary: t) simp_all

lemma demo_toolbar_eq:
  "demo_toolbar =
     \<lparr>div_classes = [], div_children = map (build_child demo_env) demo_tpl,
      searchbar_val = [], searchbar_sel = (0, 0), searchbar_focused = False,
      searchbar_placeholder = ''gui.find_placeholder'', fileInfo_text = [],
      searchProgress_classes = [''hidden''], searchProgress_d = EmptyPath,
      autocomplete = [], oldval = [], renderer_calls = []\<rparr>"
  by (simp add: demo_toolbar_def new_toolbar_def build_def build_loop_frame demo_env_def
      demo_trans_def)

lemma demo_button_eq:
  "demo_button =
     Element ''div'' [''button'', ''file-new'']
       [(''data-command'', ''file-new''), (''data-content'', ''{}''),
        (''title'', ''toolbar.file_new'')] []"
  by (simp add: demo_button_def demo_tpl_def build_child_def add_class_def addClass_def
      class_tokens_def html_space_def addClass1_def set_attr_def demo_env_def demo_trans_def)

lemma demo_empty_button_eq:
  "demo_empty_button =
     Element ''div'' [''button'']
       [(''data-command'', []), (''data-content'', []), (''title'', ''toolbar.empty'')] []"
  by (simp add: demo_empty_button_def build_child_def add_class_def addClass_def
      class_tokens_def html_space_def addClass1_def set_attr_def demo_env_def demo_trans_def)

lemma demo_typed_eq:
  "demo_typed =
     demo_toolbar\<lparr>searchbar_val := ascii ''re'', searchbar_sel := (2, 2),
       searchbar_focused := True,
       autocomplete := map ascii [''notes.md'', ''Readme.md'', ''reading-list.md''],
       renderer_calls := [GetFilesInDirectory]\<rparr>"
  by (simp add: demo_typed_def searchbar_set_val_def searchbar_focus_def on_focus_def
      searchbar_select_def call_renderer_def demo_toolbar_eq demo_env_def ascii_def)

lemma new_calls_same [simp]: "new_calls t t = []"
  by (simp add: new_calls_def)

lemma renderer_calls_call_renderer [simp]:
  "renderer_calls (call_renderer c t) = renderer_calls t @ [c]"
  by (simp add: call_renderer_def)

lemma renderer_calls_searchbar_set_val [simp]:
  "renderer_calls (searchbar_set_val v t) = renderer_calls t"
  by (simp add: searchbar_set_val_def)

lemma renderer_calls_searchbar_select [simp]:
  "renderer_calls (searchbar_select t) = renderer_calls t"
  by (simp add: searchbar_select_def)

lemma renderer_calls_setSelectionRange [simp]:
  "renderer_calls (setSelectionRange a b t) = renderer_calls t"
  by (simp add: setSelectionRange_def)

lemma renderer_calls_on_blur [simp]: "renderer_calls (on_blur t) = renderer_calls t"
  by (simp add: on_blur_def)

lemma renderer_calls_searchbar_blur [simp]:
  "renderer_calls (searchbar_blur t) = renderer_calls t"
  by (simp add: searchbar_blur_def)

lemma renderer_calls_on_focus [simp]:
  "renderer_calls (on_focus e t) = renderer_calls t @ [GetFilesInDirectory]"
  by (simp add: on_focus_def Let_def)

lemma renderer_calls_searchbar_focus [simp]:
  "renderer_calls (searchbar_focus e t) = renderer_calls t @ [GetFilesInDirectory]"
  by (simp add: searchbar_focus_def)

lemma renderer_calls_on_end_search_click [simp]:
  "renderer_calls (on_end_search_click t) = renderer_calls t @ [ExitSearch]"
  by (simp add: on_end_search_click_def)

lemma renderer_calls_on_fileInfo_click [simp]:
  "renderer_calls (on_fileInfo_click t) = renderer_calls t @ [GetBody, ShowFileInfo]"
  by (simp add: on_fileInfo_click_def)

lemma renderer_calls_on_button_click [simp]:
  "renderer_calls (on_button_click elem t) =
     renderer_calls t @ [HandleEvent (button_command elem) (button_content elem)]"
  by (simp add: on_button_click_def)

lemma renderer_calls_on_dblclick [simp]:
  "renderer_calls (on_dblclick t) = renderer_calls t @ [HandleEvent ''app-maximise'' NoContent]"
  by (simp add: on_dblclick_def)

lemma renderer_calls_autocomplete_loop:
  "renderer_calls (autocomplete_loop e names t) =
     renderer_calls t @
       (if \<exists>name \<in> set names. name_matches e (oldval t) name then [GetFilesInDirectory] else [])"
  by (induction names) (simp_all add: Let_def)

lemma renderer_calls_on_keyup:
  "renderer_calls (on_keyup e which t) =
     renderer_calls t @
       (if which = 27 then [ExitSearch]
        else if which = 13 then [BeginSearch (searchbar_val t)]
        else if which = 8 \<or> which = 46 \<or> searchbar_val t = [] \<or> searchbar_val t = oldval t
          then []
        else if \<exists>name \<in> set (autocomplete t). name_matches e (searchbar_val t) name
          then [GetFilesInDirectory] else [])"
  by (simp add: on_keyup_def Let_def renderer_calls_autocomplete_loop)

lemma renderer_calls_click:
  "renderer_calls (click elem t) =
     renderer_calls t
     @ (if node_hasClass ''end-search'' elem then [ExitSearch] else [])
     @ (if node_hasClass ''file-info'' elem then [GetBody, ShowFileInfo] else [])
     @ (if node_hasClass ''button'' elem
        then [HandleEvent (button_command elem) (button_content elem)] else [])"
  by (simp add: click_def Let_def)


lemma set_attr_Element:
  "set_attr k v (Element t cs as ks) =
     Element t cs (case v of None \<Rightarrow> as | Some s \<Rightarrow> AList.update k s as) ks"
  by (cases v) (simp_all add: set_attr_def)

lemma add_class_Element: "add_class v (Element t cs as ks) = Element t (addClass v cs) as ks"
  by (simp add: add_class_def)

lemma set_addClass: "set (addClass v cs) = set (class_tokens v) \<union> set cs"
  by (simp add: addClass_def set_fold_addClass1)

lemma class_tokens_button: "class_tokens (Some ''button'') = [''button'']"
  by (simp add: class_tokens_def html_space_def)

lemma class_tokens_searchbar: "class_tokens (Some ''searchbar'') = [''searchbar'']"
  by (simp add: class_tokens_def html_space_def)

lemma class_tokens_pomodoro: "class_tokens (Some ''pomodoro'') = [''pomodoro'']"
  by (simp add: class_tokens_def html_space_def)

lemma build_child_button:
  assumes "role d = ''button''"
  shows "build_child e d =
     Element ''div'' (addClass (cls d) [''button''])
       (case Some (trans e (title d) []) of None \<Rightarrow> [] | Some s \<Rightarrow>
          AList.update ''title'' s
            (case content d of None \<Rightarrow>
               (case command d of None \<Rightarrow> [] | Some c \<Rightarrow> AList.update ''data-command'' c [])
             | Some k \<Rightarrow> AList.update ''data-content'' k
               (case command d of None \<Rightarrow> [] | Some c \<Rightarrow> AList.update ''data-command'' c [])))
       []"
  using assms
  by (simp add: build_child_def add_class_Element set_attr_Element addClass_def
      class_tokens_button addClass1_def split: option.splits)

lemma build_child_searchbar:
  assumes "role d = ''searchbar''"
  shows "build_child e d = Element ''div'' [''searchbar''] [] searchbar_html"
  using assms
  by (simp add: build_child_def add_class_Element set_html_def addClass_def
      class_tokens_searchbar addClass1_def)

lemma build_child_pomodoro:
  assumes "role d = ''pomodoro''"
  shows "build_child e d =
     Element ''div'' [''pomodoro'', ''button''] [(''data-command'', ''pomodoro'')] pomodoro_html"
  using assms
  by (simp add: build_child_def add_class_Element set_attr_Element set_html_def addClass_def
      class_tokens_pomodoro class_tokens_button addClass1_def)

lemma autocomplete_loop_no_match:
  "\<forall>name \<in> set names. \<not> name_matches e (oldval t) name \<Longrightarrow> autocomplete_loop e names t = t"
  by (induction names) simp_all

lemma autocomplete_loop_head:
  assumes "name_matches e (oldval t) name"
  shows "searchbar_val (autocomplete_loop e (name # names) t) =
           oldval t @ drop (length (oldval t)) name"
    and "searchbar_sel (autocomplete_loop e (name # names) t) =
           (length (oldval t), length (oldval t @ drop (length (oldval t)) name))"
  using assms
  by (simp_all add: Let_def setSelectionRange_def searchbar_focus_def on_focus_def
      call_renderer_def searchbar_select_def searchbar_set_val_def)

lemma autocomplete_loop_first_match:
  assumes "i < length names" and "name_matches e (oldval t) (names ! i)"
    and "\<forall>j < i. \<not> name_matches e (oldval t) (names ! j)"
  shows "searchbar_val (autocomplete_loop e names t) =
           oldval t @ drop (length (oldval t)) (names ! i)
         \<and> searchbar_sel (autocomplete_loop e names t) =
           (length (oldval t), length (oldval t @ drop (length (oldval t)) (names ! i)))"
  using assms
proof (induction names arbitrary: i)
  case Nil
  then show ?case by simp
next
  case (Cons name names)
  show ?case
  proof (cases i)
    case 0
    with Cons.prems have "name_matches e (oldval t) name" by simp
    from autocomplete_loop_head [OF this] 0 show ?thesis by simp
  next
    case (Suc k)
    with Cons.prems have nm: "\<not> name_matches e (oldval t) name" by auto
    have k: "k < length names" using Cons.prems Suc by simp
    have mk: "name_matches e (oldval t) (names ! k)" using Cons.prems Suc by simp
    have "\<forall>j < k. \<not> name_matches e (oldval t) (names ! j)"
    proof (intro allI impI)
      fix j assume "j < k"
      then have "Suc j < i" using Suc by simp
      with Cons.prems have "\<not> name_matches e (oldval t) ((name # names) ! Suc j)" by blast
      then show "\<not> name_matches e (oldval t) (names ! j)" by simp
    qed
    from Cons.IH [OF k mk this] nm Suc show ?thesis by simp
  qed
qed

lemma ascii_nonempty: "ascii ''re'' \<noteq> []"
  by (simp add: ascii_def)

lemma demo_typed_fields:
  "searchbar_val demo_typed = ascii ''re''" "oldval demo_typed = []"
  "autocomplete demo_typed = map ascii [''notes.md'', ''Readme.md'', ''reading-list.md'']"
  by (simp_all add: demo_typed_eq demo_toolbar_eq)

lemma demo_umlaut_fields:
  "searchbar_val demo_umlaut = [0xE4]" "oldval demo_umlaut = []"
  "autocomplete demo_umlaut = [ascii ''notes.md'', 0xC4 # ascii ''pfel.md'']"
  by (simp_all add: demo_umlaut_def searchbar_set_val_def searchbar_focus_def on_focus_def
      searchbar_select_def call_renderer_def demo_toolbar_eq demo_env_def)

lemma focus_scoped_searchbar_focus: "focus_scoped (searchbar_focus e t)"
  by (simp add: focus_scoped_def searchbar_focus_def on_focus_def call_renderer_def
      searchbar_select_def Let_def)

lemma focus_scoped_searchbar_blur: "focus_scoped (searchbar_blur t)"
  by (simp add: focus_scoped_def searchbar_blur_def on_blur_def)

lemma focus_scoped_searchbar_set_val:
  "focus_scoped t \<Longrightarrow> focus_scoped (searchbar_set_val v t)"
  by (simp add: focus_scoped_def searchbar_set_val_def)

lemma focus_scoped_searchbar_select: "focus_scoped t \<Longrightarrow> focus_scoped (searchbar_select t)"
  by (simp add: focus_scoped_def searchbar_select_def)

lemma focus_scoped_setSelectionRange:
  "focus_scoped t \<Longrightarrow> focus_scoped (setSelectionRange a b t)"
  by (simp add: focus_scoped_def setSelectionRange_def)

lemma focus_scoped_call_renderer: "focus_scoped t \<Longrightarrow> focus_scoped (call_renderer c t)"
  by (simp add: focus_scoped_def call_renderer_def)

lemma focus_scoped_oldval_update: "focus_scoped t \<Longrightarrow> focus_scoped (t\<lparr>oldval := v\<rparr>)"
  by (simp add: focus_scoped_def)

lemma focus_scoped_autocomplete_loop:
  "focus_scoped t \<Longrightarrow> focus_scoped (autocomplete_loop e names t)"
  by (induction names)
    (simp_all add: Let_def focus_scoped_setSelectionRange focus_scoped_searchbar_focus)

lemma focus_scoped_on_keyup: "focus_scoped t \<Longrightarrow> focus_scoped (on_keyup e which t)"
  by (simp add: on_keyup_def Let_def focus_scoped_call_renderer focus_scoped_searchbar_set_val
      focus_scoped_searchbar_blur focus_scoped_searchbar_select focus_scoped_oldval_update
      focus_scoped_autocomplete_loop)

lemma focus_scoped_click: "focus_scoped t \<Longrightarrow> focus_scoped (click elem t)"
  by (simp add: click_def Let_def on_end_search_click_def on_fileInfo_click_def
      on_button_click_def focus_scoped_call_renderer focus_scoped_searchbar_set_val
      focus_scoped_searchbar_blur)

lemma focus_scoped_methods:
  assumes "focus_scoped t"
  shows "focus_scoped (snd (updateWordCount e words t))" "focus_scoped (snd (hideWordCount t))"
    "focus_scoped (snd (toggleDistractionFree t))" "focus_scoped (setSearch v t)"
    "focus_scoped (searchProgress e item itemCnt t)" "focus_scoped (endSearch t)"
    "focus_scoped (on_dblclick t)" "focus_scoped (snd (focusSearch e t))"
  using assms
  by (simp_all add: focus_scoped_def updateWordCount_def hideWordCount_def
      toggleDistractionFree_def setSearch_def searchbar_set_val_def searchProgress_def
      endSearch_def on_dblclick_def call_renderer_def focusSearch_def searchbar_select_def
      searchbar_focus_def on_focus_def Let_def)

lemma focus_scoped_step: "focus_scoped t \<Longrightarrow> focus_scoped (step ev t)"
proof -
  assume a: "focus_scoped t"
  obtain e x where ev: "ev = (e, x)" by (cases ev)
  show ?thesis
    unfolding ev using a
    by (cases x)
      (simp_all add: focus_scoped_on_keyup focus_scoped_searchbar_set_val focus_scoped_click
        focus_scoped_methods focus_scoped_searchbar_focus focus_scoped_searchbar_blur)
qed

lemma focus_scoped_fold: "focus_scoped t \<Longrightarrow> focus_scoped (fold step evs t)"
  by (induction evs arbitrary: t) (simp_all add: focus_scoped_step)

lemma focus_scoped_new_toolbar: "focus_scoped (new_toolbar e cs ks)"
  by (simp add: focus_scoped_def new_toolbar_def Let_def)

section \<open>The claims\<close>

subsection \<open>Word count\<close>

text \<open>
  C8. \<open>updateWordCount(0)\<close> clears the text of the file information, exactly as
  \<open>hideWordCount\<close> does, and shows no count of zero; for every other number of words the
  text becomes the translation of \<open>gui.words\<close> with the localised number.
\<close>

theorem updateWordCount_text:
  "updateWordCount e 0 t = hideWordCount t
   \<and> fileInfo_text (snd (updateWordCount e 0 t)) = []
   \<and> (words \<noteq> 0 \<longrightarrow>
        fileInfo_text (snd (updateWordCount e words t)) =
          trans e (Some ''gui.words'') [localiseNumber e words])"
  by (simp add: updateWordCount_def hideWordCount_def)

theorem updateWordCount_text_witness:
  "(5::int) \<noteq> 0
   \<and> fileInfo_text (snd (updateWordCount demo_env 5 demo_toolbar)) = ''gui.words5''"
  using updateWordCount_text [of demo_env demo_toolbar 5]
  by (simp add: demo_env_def demo_trans_def)

subsection \<open>Distraction free mode\<close>

text \<open>
  C10. \<open>toggleDistractionFree\<close> returns the toolbar object itself. It toggles the class
  \<open>mute\<close> of the toolbar's div and nothing else: the other classes stay as they are, in
  their order, and so does every other part of the view. Calling it again on the returned
  object restores the presence or absence of \<open>mute\<close>.
\<close>

theorem toggleDistractionFree_mute:
  "fst (toggleDistractionFree t) = This
   \<and> hasClass ''mute'' (div_classes (snd (toggleDistractionFree t))) =
       (\<not> hasClass ''mute'' (div_classes t))
   \<and> filter (\<lambda>c. c \<noteq> ''mute'') (div_classes (snd (toggleDistractionFree t))) =
       filter (\<lambda>c. c \<noteq> ''mute'') (div_classes t)
   \<and> snd (toggleDistractionFree t) =
       t\<lparr>div_classes := div_classes (snd (toggleDistractionFree t))\<rparr>
   \<and> fst (toggleDistractionFree (snd (toggleDistractionFree t))) = This
   \<and> hasClass ''mute''
         (div_classes (snd (toggleDistractionFree (snd (toggleDistractionFree t))))) =
       hasClass ''mute'' (div_classes t)"
  by (simp add: toggleDistractionFree_def toggleClass_def hasClass_def addClass1_def
      removeClass_def)

subsection \<open>The progress indicator\<close>

text \<open>
  C9. While the indicator carries the class \<open>hidden\<close>, a call of \<open>searchProgress\<close> only
  removes that class: the path stays as it was and nothing else changes. The path changes
  only in a call made while the indicator is visible, and such a call writes the arc of its
  arguments and nothing else. \<open>endSearch\<close> puts the class \<open>hidden\<close> back and changes
  nothing but the class list.
\<close>

theorem searchProgress_hidden:
  "(hasClass ''hidden'' (searchProgress_classes t) \<longrightarrow>
      searchProgress e item itemCnt t =
        t\<lparr>searchProgress_classes := removeClass ''hidden'' (searchProgress_classes t)\<rparr>
      \<and> searchProgress_d (searchProgress e item itemCnt t) = searchProgress_d t
      \<and> \<not> hasClass ''hidden'' (searchProgress_classes (searchProgress e item itemCnt t)))
   \<and> (searchProgress_d (searchProgress e item itemCnt t) \<noteq> searchProgress_d t \<longrightarrow>
        \<not> hasClass ''hidden'' (searchProgress_classes t))
   \<and> (\<not> hasClass ''hidden'' (searchProgress_classes t) \<longrightarrow>
        searchProgress e item itemCnt t = t\<lparr>searchProgress_d := progress_arc e item itemCnt\<rparr>)
   \<and> hasClass ''hidden'' (searchProgress_classes (endSearch t))
   \<and> endSearch t = t\<lparr>searchProgress_classes := searchProgress_classes (endSearch t)\<rparr>"
  by (simp add: searchProgress_def endSearch_def hasClass_def removeClass_def addClass1_def)

theorem searchProgress_hidden_witness:
  "hasClass ''hidden'' (searchProgress_classes demo_toolbar)
   \<and> searchProgress_classes (searchProgress demo_env 1 2 demo_toolbar) = []
   \<and> searchProgress_d (searchProgress demo_env 1 2 demo_toolbar) = EmptyPath
   \<and> \<not> hasClass ''hidden'' (searchProgress_classes (searchProgress demo_env 1 2 demo_toolbar))
   \<and> searchProgress_d (searchProgress demo_env 3 4 (searchProgress demo_env 1 2 demo_toolbar)) = progress_arc demo_env 3 4
   \<and> hasClass ''hidden''
        (searchProgress_classes (endSearch (searchProgress demo_env 3 4 (searchProgress demo_env 1 2 demo_toolbar))))"
proof -
  have h: "hasClass ''hidden'' (searchProgress_classes demo_toolbar)"
    by (simp add: demo_toolbar_eq hasClass_def)
  have first: "searchProgress demo_env 1 2 demo_toolbar =
      demo_toolbar\<lparr>searchProgress_classes :=
        removeClass ''hidden'' (searchProgress_classes demo_toolbar)\<rparr>"
    using searchProgress_hidden [of demo_toolbar demo_env 1 2] h by blast
  have cs: "searchProgress_classes (searchProgress demo_env 1 2 demo_toolbar) = []"
    unfolding first by (simp add: demo_toolbar_eq removeClass_def)
  have d: "searchProgress_d (searchProgress demo_env 1 2 demo_toolbar) = EmptyPath"
    unfolding first by (simp add: demo_toolbar_eq)
  have v: "\<not> hasClass ''hidden'' (searchProgress_classes (searchProgress demo_env 1 2 demo_toolbar))"
    unfolding cs by (simp add: hasClass_def)
  have second: "searchProgress demo_env 3 4 (searchProgress demo_env 1 2 demo_toolbar) =
      (searchProgress demo_env 1 2 demo_toolbar)\<lparr>searchProgress_d := progress_arc demo_env 3 4\<rparr>"
    using searchProgress_hidden [of "searchProgress demo_env 1 2 demo_toolbar" demo_env 3 4] v by blast
  have d2: "searchProgress_d (searchProgress demo_env 3 4 (searchProgress demo_env 1 2 demo_toolbar)) =
      progress_arc demo_env 3 4"
    unfolding second by simp
  have e: "hasClass ''hidden''
      (searchProgress_classes (endSearch (searchProgress demo_env 3 4 (searchProgress demo_env 1 2 demo_toolbar))))"
    using searchProgress_hidden
      [of "searchProgress demo_env 3 4 (searchProgress demo_env 1 2 demo_toolbar)" demo_env 0 0]
    by blast
  from h cs d v d2 e show ?thesis by blast
qed




subsection \<open>Clicks on buttons\<close>

text \<open>
  C1, as stated, lets the command be the element's \<open>data-command\<close> attribute whenever the
  element has one. A button built from a descriptor whose command and content are empty
  strings has both attributes, and its click dispatches \<open>unknown-command\<close> with \<open>{}\<close>.
\<close>

theorem button_click_empty_attribute_counterexample:
  "node_hasClass ''button'' demo_empty_button
   \<and> get_attr ''data-command'' demo_empty_button = Some []
   \<and> get_attr ''data-content'' demo_empty_button = Some []
   \<and> renderer_calls (click demo_empty_button demo_toolbar) =
       [HandleEvent ''unknown-command'' EmptyObject]"
  by (simp add: demo_empty_button_eq node_hasClass_def hasClass_def get_attr_def
      renderer_calls_click button_command_def button_content_def demo_toolbar_eq)

text \<open>
  C1, amended. A click on an element of the toolbar with the class \<open>button\<close> calls
  \<open>handleEvent\<close> exactly once. The command is the element's \<open>data-command\<close> attribute,
  and \<open>unknown-command\<close> when the attribute is missing or empty; the content is the
  \<open>data-content\<close> attribute, and the empty object when the attribute is missing or empty.
\<close>

theorem button_click_dispatch:
  assumes "node_hasClass ''button'' elem"
  shows "handle_events (new_calls t (click elem t)) =
           [(button_command elem, button_content elem)]
   \<and> (get_attr ''data-command'' elem = None \<or> get_attr ''data-command'' elem = Some []
        \<longrightarrow> button_command elem = ''unknown-command'')
   \<and> (\<forall>s. get_attr ''data-command'' elem = Some s \<and> s \<noteq> [] \<longrightarrow> button_command elem = s)
   \<and> (get_attr ''data-content'' elem = None \<or> get_attr ''data-content'' elem = Some []
        \<longrightarrow> button_content elem = EmptyObject)
   \<and> (\<forall>s. get_attr ''data-content'' elem = Some s \<and> s \<noteq> []
        \<longrightarrow> button_content elem = ContentString s)"
proof -
  have "handle_events (new_calls t (click elem t)) =
      [(button_command elem, button_content elem)]"
    using assms by (simp add: new_calls_def renderer_calls_click)
  moreover have "get_attr ''data-command'' elem = None \<or> get_attr ''data-command'' elem = Some []
      \<longrightarrow> button_command elem = ''unknown-command''"
    by (auto simp: button_command_def)
  moreover have "\<forall>s. get_attr ''data-command'' elem = Some s \<and> s \<noteq> []
      \<longrightarrow> button_command elem = s"
    by (auto simp: button_command_def)
  moreover have "get_attr ''data-content'' elem = None \<or> get_attr ''data-content'' elem = Some []
      \<longrightarrow> button_content elem = EmptyObject"
    by (auto simp: button_content_def)
  moreover have "\<forall>s. get_attr ''data-content'' elem = Some s \<and> s \<noteq> []
      \<longrightarrow> button_content elem = ContentString s"
    by (auto simp: button_content_def)
  ultimately show ?thesis by blast
qed

theorem button_click_dispatch_witness:
  "node_hasClass ''button'' demo_button
   \<and> get_attr ''data-command'' demo_button = Some ''file-new''
   \<and> get_attr ''data-content'' demo_button = Some ''{}''
   \<and> handle_events (new_calls demo_toolbar (click demo_button demo_toolbar)) =
       [(''file-new'', ContentString ''{}'')]"
proof -
  have b: "node_hasClass ''button'' demo_button"
    by (simp add: demo_button_eq node_hasClass_def hasClass_def)
  have c: "get_attr ''data-command'' demo_button = Some ''file-new''"
    by (simp add: demo_button_eq get_attr_def)
  have k: "get_attr ''data-content'' demo_button = Some ''{}''"
    by (simp add: demo_button_eq get_attr_def)
  from button_click_dispatch [OF b, of demo_toolbar] c k
  have "handle_events (new_calls demo_toolbar (click demo_button demo_toolbar)) =
      [(''file-new'', ContentString ''{}'')]"
    by simp
  with b c k show ?thesis by blast
qed

subsection \<open>How the listeners reach the renderer\<close>

text \<open>
  C5, as stated, lets every listener reach the renderer through \<open>handleEvent\<close> only. The
  keyup listener on the key ESC calls \<open>exitSearch\<close> and makes no \<open>handleEvent\<close> call.
\<close>

theorem keyup_escape_counterexample:
  "renderer_calls (on_keyup demo_env 27 demo_toolbar) = [ExitSearch]
   \<and> handle_events (renderer_calls (on_keyup demo_env 27 demo_toolbar)) = []"
  by (simp add: renderer_calls_on_keyup demo_toolbar_eq)

text \<open>
  C5, amended. The click listener of the buttons and the double-click listener of the
  toolbar reach the renderer through \<open>handleEvent\<close> only, the second with the command
  \<open>app-maximise\<close> and no content. The other listeners call the renderer's own methods:
  the keyup listener \<open>exitSearch\<close> on ESC and \<open>beginSearch\<close> with the value on RETURN,
  and on any other key nothing or (through the focus it gives the input on a match)
  \<open>getFilesInDirectory\<close>; the click listener of \<open>.end-search\<close> calls \<open>exitSearch\<close>, the
  focus listener \<open>getFilesInDirectory\<close>, the blur listener nothing, and the click listener
  of the file information \<open>getBody\<close> and \<open>showFileInfo\<close> on the body.
\<close>

theorem listeners_renderer_calls:
  "new_calls t (on_button_click elem t) =
     [HandleEvent (button_command elem) (button_content elem)]
   \<and> new_calls t (on_dblclick t) = [HandleEvent ''app-maximise'' NoContent]
   \<and> new_calls t (on_keyup e 27 t) = [ExitSearch]
   \<and> new_calls t (on_keyup e 13 t) = [BeginSearch (searchbar_val t)]
   \<and> (which \<noteq> 27 \<and> which \<noteq> 13 \<longrightarrow>
        new_calls t (on_keyup e which t) = [] \<or>
        new_calls t (on_keyup e which t) = [GetFilesInDirectory])
   \<and> new_calls t (on_end_search_click t) = [ExitSearch]
   \<and> new_calls t (on_focus e t) = [GetFilesInDirectory]
   \<and> new_calls t (on_blur t) = []
   \<and> new_calls t (on_fileInfo_click t) = [GetBody, ShowFileInfo]"
  by (simp add: new_calls_def renderer_calls_on_keyup)

theorem listeners_renderer_calls_witness:
  "(82::nat) \<noteq> 27 \<and> (82::nat) \<noteq> 13
   \<and> new_calls demo_typed (on_keyup demo_env 82 demo_typed) = [GetFilesInDirectory]
   \<and> new_calls demo_toolbar (on_keyup demo_env 82 demo_toolbar) = []"
proof -
  have a: "new_calls demo_toolbar (on_keyup demo_env 82 demo_toolbar) = []"
    by (simp add: new_calls_def renderer_calls_on_keyup demo_toolbar_eq)
  have m: "name_matches demo_env (ascii ''re'') (ascii ''Readme.md'')"
    by (simp add: name_matches_def demo_env_def sample_toLowerCase_def sample_lower_unit_def
        ascii_def)
  have "new_calls demo_typed (on_keyup demo_env 82 demo_typed) \<noteq> []"
    using m
    by (simp add: new_calls_def renderer_calls_on_keyup demo_typed_fields ascii_nonempty)
  with listeners_renderer_calls [of demo_typed _ demo_env 82]
  have "new_calls demo_typed (on_keyup demo_env 82 demo_typed) = [GetFilesInDirectory]"
    by simp
  with a show ?thesis by simp
qed

subsection \<open>What \<open>_build\<close> appends\<close>

text \<open>
  C4. \<open>_build\<close> appends one child per descriptor of the template, in the template's
  order, and changes nothing else. For the role \<open>button\<close> the child is a div of the class
  \<open>button\<close> that has every class name of the descriptor, the descriptor's command and
  content as \<open>data-command\<close> and \<open>data-content\<close> (no attribute where the descriptor has
  none) and the translated title. For the role \<open>searchbar\<close> it is a div holding a text
  input and the \<open>end-search\<close> element, whose text is the multiplication sign U+00D7. For the role \<open>pomodoro\<close> it is a div of the class
  \<open>button\<close> with the \<open>data-command\<close> \<open>pomodoro\<close> holding one SVG element.
\<close>

theorem build_children:
  "build e t = t\<lparr>div_children := div_children t @ map (build_child e) (tpl e)\<rparr>
   \<and> (role d = ''button'' \<longrightarrow>
        tag (build_child e d) = ''div''
        \<and> node_hasClass ''button'' (build_child e d)
        \<and> set (class_tokens (cls d)) \<subseteq> set (classes (build_child e d))
        \<and> get_attr ''data-command'' (build_child e d) = command d
        \<and> get_attr ''data-content'' (build_child e d) = content d
        \<and> get_attr ''title'' (build_child e d) = Some (trans e (title d) [])
        \<and> inner (build_child e d) = [])
   \<and> (role d = ''searchbar'' \<longrightarrow>
        build_child e d =
          Element ''div'' [''searchbar''] []
            [Element ''input'' [] [(''type'', ''text'')] [],
             Element ''div'' [''end-search''] [] [TextNode [0xD7]]])
   \<and> (role d = ''pomodoro'' \<longrightarrow>
        tag (build_child e d) = ''div''
        \<and> node_hasClass ''button'' (build_child e d)
        \<and> get_attr ''data-command'' (build_child e d) = Some ''pomodoro''
        \<and> inner (build_child e d) = pomodoro_html
        \<and> (\<exists>cs al ks. inner (build_child e d) = [Element ''svg'' cs al ks]))"
proof -
  have a: "build e t = t\<lparr>div_children := div_children t @ map (build_child e) (tpl e)\<rparr>"
    by (simp add: build_def build_loop_frame)
  have b: "role d = ''button'' \<longrightarrow>
        tag (build_child e d) = ''div''
        \<and> node_hasClass ''button'' (build_child e d)
        \<and> set (class_tokens (cls d)) \<subseteq> set (classes (build_child e d))
        \<and> get_attr ''data-command'' (build_child e d) = command d
        \<and> get_attr ''data-content'' (build_child e d) = content d
        \<and> get_attr ''title'' (build_child e d) = Some (trans e (title d) [])
        \<and> inner (build_child e d) = []"
    by (auto simp: build_child_button node_hasClass_def hasClass_def set_addClass get_attr_def
        update_conv' split: option.splits)
  have c: "role d = ''searchbar'' \<longrightarrow>
        build_child e d =
          Element ''div'' [''searchbar''] []
            [Element ''input'' [] [(''type'', ''text'')] [],
             Element ''div'' [''end-search''] [] [TextNode [0xD7]]]"
    by (simp add: build_child_searchbar searchbar_html_def)
  have p: "role d = ''pomodoro'' \<longrightarrow>
        tag (build_child e d) = ''div''
        \<and> node_hasClass ''button'' (build_child e d)
        \<and> get_attr ''data-command'' (build_child e d) = Some ''pomodoro''
        \<and> inner (build_child e d) = pomodoro_html
        \<and> (\<exists>cs al ks. inner (build_child e d) = [Element ''svg'' cs al ks])"
    by (simp add: build_child_pomodoro node_hasClass_def hasClass_def get_attr_def
        pomodoro_html_def)
  from a b c p show ?thesis by blast
qed

theorem build_children_witness:
  "role (demo_tpl ! 0) = ''button''
   \<and> get_attr ''data-command'' (build_child demo_env (demo_tpl ! 0)) = Some ''file-new''
   \<and> get_attr ''data-content'' (build_child demo_env (demo_tpl ! 0)) = Some ''{}''
   \<and> get_attr ''title'' (build_child demo_env (demo_tpl ! 0)) = Some ''toolbar.file_new''
   \<and> role (demo_tpl ! 1) = ''searchbar''
   \<and> build_child demo_env (demo_tpl ! 1) =
       Element ''div'' [''searchbar''] []
         [Element ''input'' [] [(''type'', ''text'')] [],
          Element ''div'' [''end-search''] [] [TextNode [0xD7]]]
   \<and> role (demo_tpl ! 3) = ''pomodoro''
   \<and> get_attr ''data-command'' (build_child demo_env (demo_tpl ! 3)) = Some ''pomodoro''
   \<and> length (div_children (build demo_env demo_toolbar)) = 8"
proof -
  have r0: "role (demo_tpl ! 0) = ''button''" by (simp add: demo_tpl_def)
  have r1: "role (demo_tpl ! 1) = ''searchbar''" by (simp add: demo_tpl_def)
  have r3: "role (demo_tpl ! 3) = ''pomodoro''" by (simp add: demo_tpl_def)
  have f0: "command (demo_tpl ! 0) = Some ''file-new''"
    "content (demo_tpl ! 0) = Some ''{}''"
    "title (demo_tpl ! 0) = Some ''toolbar.file_new''"
    by (simp_all add: demo_tpl_def)
  have tr: "trans demo_env (Some ''toolbar.file_new'') [] = ''toolbar.file_new''"
    by (simp add: demo_env_def demo_trans_def)
  have n: "length (div_children demo_toolbar) = 4" "length (tpl demo_env) = 4"
    by (simp_all add: demo_toolbar_eq demo_env_def demo_tpl_def)
  have b: "div_children (build demo_env demo_toolbar) =
      div_children demo_toolbar @ map (build_child demo_env) (tpl demo_env)"
    using build_children [of demo_env demo_toolbar "demo_tpl ! 0"] by simp
  have l: "length (div_children (build demo_env demo_toolbar)) = 8"
    unfolding b using n by simp
  from r0 r1 r3 f0 tr l
    build_children [of demo_env demo_toolbar "demo_tpl ! 0"]
    build_children [of demo_env demo_toolbar "demo_tpl ! 1"]
    build_children [of demo_env demo_toolbar "demo_tpl ! 3"]
  show ?thesis by simp
qed

subsection \<open>The public methods and what lies outside the view\<close>

text \<open>
  C7, as stated, lets none of the seven methods modify anything outside the view.
  \<open>focusSearch\<close> on a new view, whose input does not have the focus, takes the
  document's keyboard focus for the input and makes a call on the renderer.
\<close>

theorem focusSearch_outside_counterexample:
  "\<not> searchbar_focused demo_toolbar
   \<and> searchbar_focused (snd (focusSearch demo_env demo_toolbar))
   \<and> renderer_calls demo_toolbar = []
   \<and> renderer_calls (snd (focusSearch demo_env demo_toolbar)) = [GetFilesInDirectory]"
  by (simp add: focusSearch_def searchbar_select_def searchbar_focus_def on_focus_def
      call_renderer_def Let_def demo_toolbar_eq)

text \<open>
  C7, amended. Each of \<open>updateWordCount\<close>, \<open>hideWordCount\<close>, \<open>toggleDistractionFree\<close>,
  \<open>setSearch\<close>, \<open>searchProgress\<close> and \<open>endSearch\<close> changes only elements of the toolbar's
  own subtree (the text of the file information, the class list of the div, the value and
  cursor of the input, the class list and path of the indicator): it makes no call on the
  renderer and leaves the keyboard focus where it is. \<open>focusSearch\<close> changes, of the
  view's own, the selection of the input and the private candidate list; outside the
  view it gives the document's keyboard focus to the input and, through the focus
  listener, calls \<open>getFilesInDirectory\<close> on the renderer, and nothing else.
\<close>

theorem public_methods_frame:
  "snd (updateWordCount e words t) =
     t\<lparr>fileInfo_text := fileInfo_text (snd (updateWordCount e words t))\<rparr>
   \<and> snd (hideWordCount t) = t\<lparr>fileInfo_text := fileInfo_text (snd (hideWordCount t))\<rparr>
   \<and> snd (toggleDistractionFree t) =
       t\<lparr>div_classes := div_classes (snd (toggleDistractionFree t))\<rparr>
   \<and> setSearch v t =
       t\<lparr>searchbar_val := searchbar_val (setSearch v t),
         searchbar_sel := searchbar_sel (setSearch v t)\<rparr>
   \<and> searchProgress e item itemCnt t =
       t\<lparr>searchProgress_classes := searchProgress_classes (searchProgress e item itemCnt t),
         searchProgress_d := searchProgress_d (searchProgress e item itemCnt t)\<rparr>
   \<and> endSearch t = t\<lparr>searchProgress_classes := searchProgress_classes (endSearch t)\<rparr>
   \<and> snd (focusSearch e t) =
       t\<lparr>searchbar_sel := searchbar_sel (snd (focusSearch e t)),
         autocomplete := getFilesInDirectory e,
         searchbar_focused := True,
         renderer_calls := renderer_calls t @ [GetFilesInDirectory]\<rparr>"
  by (simp add: updateWordCount_def hideWordCount_def toggleDistractionFree_def setSearch_def
      searchbar_set_val_def searchProgress_def endSearch_def focusSearch_def
      searchbar_select_def searchbar_focus_def on_focus_def call_renderer_def Let_def)

subsection \<open>Completion in the search bar\<close>

text \<open>
  C2. On a keyup whose key is none of ESC, RETURN, backspace and DEL, with a value that is
  not empty and differs from the stored one, the listener goes through the candidate list
  in order. At the first name whose beginning, as long as the typed value, equals the
  typed value after \<open>toLowerCase\<close> on both (whatever letters JavaScript lowers, within and
  beyond ASCII), the value becomes the typed value followed by
  the rest of that name, and the selection is the part that was added. When no name
  matches, the value stays as typed. Either way the value is stored as the old one.
\<close>

theorem keyup_autocomplete:
  assumes "which \<noteq> 27" and "which \<noteq> 13" and "which \<noteq> 8" and "which \<noteq> 46"
    and "searchbar_val t \<noteq> []" and "searchbar_val t \<noteq> oldval t"
  shows "(\<forall>i < length (autocomplete t).
            name_matches e (searchbar_val t) (autocomplete t ! i)
            \<and> (\<forall>j < i. \<not> name_matches e (searchbar_val t) (autocomplete t ! j))
            \<longrightarrow> searchbar_val (on_keyup e which t) =
                  searchbar_val t @ drop (length (searchbar_val t)) (autocomplete t ! i)
                \<and> searchbar_sel (on_keyup e which t) =
                  (length (searchbar_val t), length (searchbar_val (on_keyup e which t))))
         \<and> ((\<forall>name \<in> set (autocomplete t). \<not> name_matches e (searchbar_val t) name)
            \<longrightarrow> searchbar_val (on_keyup e which t) = searchbar_val t)
         \<and> oldval (on_keyup e which t) = searchbar_val (on_keyup e which t)"
proof -
  define t1 where "t1 = t\<lparr>oldval := searchbar_val t\<rparr>"
  define t2 where "t2 = autocomplete_loop e (autocomplete t) t1"
  have k: "on_keyup e which t = t2\<lparr>oldval := searchbar_val t2\<rparr>"
    using assms by (simp add: on_keyup_def t1_def t2_def Let_def)
  have o: "oldval t1 = searchbar_val t" by (simp add: t1_def)
  have match: "searchbar_val t2 =
        searchbar_val t @ drop (length (searchbar_val t)) (autocomplete t ! i)
      \<and> searchbar_sel t2 = (length (searchbar_val t), length (searchbar_val t2))"
    if "i < length (autocomplete t)" "name_matches e (searchbar_val t) (autocomplete t ! i)"
      "\<forall>j < i. \<not> name_matches e (searchbar_val t) (autocomplete t ! j)" for i
    using autocomplete_loop_first_match [where i = i and names = "autocomplete t" and t = t1 and e = e] that
    unfolding t2_def o by simp
  have none: "searchbar_val t2 = searchbar_val t"
    if "\<forall>name \<in> set (autocomplete t). \<not> name_matches e (searchbar_val t) name"
    using autocomplete_loop_no_match [where names = "autocomplete t" and t = t1 and e = e] that
    unfolding t2_def o by (simp add: t1_def)
  show ?thesis
    unfolding k using match none by simp
qed

theorem keyup_autocomplete_witness:
  "(82::nat) \<noteq> 27 \<and> (82::nat) \<noteq> 13 \<and> (82::nat) \<noteq> 8 \<and> (82::nat) \<noteq> 46
   \<and> searchbar_val demo_typed = ascii ''re'' \<and> oldval demo_typed = []
   \<and> autocomplete demo_typed = map ascii [''notes.md'', ''Readme.md'', ''reading-list.md'']
   \<and> searchbar_val (on_keyup demo_env 82 demo_typed) = ascii ''readme.md''
   \<and> searchbar_sel (on_keyup demo_env 82 demo_typed) = (2, 9)
   \<and> searchbar_val demo_umlaut = [0xE4] \<and> oldval demo_umlaut = []
   \<and> autocomplete demo_umlaut = [ascii ''notes.md'', 0xC4 # ascii ''pfel.md'']
   \<and> searchbar_val (on_keyup demo_env 222 demo_umlaut) = 0xE4 # ascii ''pfel.md''
   \<and> searchbar_sel (on_keyup demo_env 222 demo_umlaut) = (1, 8)"
proof -
  have n: "(82::nat) \<noteq> 27" "(82::nat) \<noteq> 13" "(82::nat) \<noteq> 8" "(82::nat) \<noteq> 46"
    by simp_all
  have v: "searchbar_val demo_typed \<noteq> []" "searchbar_val demo_typed \<noteq> oldval demo_typed"
    by (simp_all add: demo_typed_fields ascii_nonempty)
  have m1: "name_matches demo_env (ascii ''re'') (ascii ''Readme.md'')"
    by (simp add: name_matches_def demo_env_def sample_toLowerCase_def sample_lower_unit_def
        ascii_def)
  have m0: "\<not> name_matches demo_env (ascii ''re'') (ascii ''notes.md'')"
    by (simp add: name_matches_def demo_env_def sample_toLowerCase_def sample_lower_unit_def
        ascii_def)
  have first: "(1::nat) < length (autocomplete demo_typed)
      \<and> name_matches demo_env (searchbar_val demo_typed) (autocomplete demo_typed ! 1)
      \<and> (\<forall>j < (1::nat).
            \<not> name_matches demo_env (searchbar_val demo_typed) (autocomplete demo_typed ! j))"
    using m0 m1 by (simp add: demo_typed_fields)
  note K = keyup_autocomplete [of 82 demo_typed demo_env, OF n v]
  from K have "\<forall>i < length (autocomplete demo_typed).
      name_matches demo_env (searchbar_val demo_typed) (autocomplete demo_typed ! i)
      \<and> (\<forall>j < i.
            \<not> name_matches demo_env (searchbar_val demo_typed) (autocomplete demo_typed ! j))
      \<longrightarrow> searchbar_val (on_keyup demo_env 82 demo_typed) =
            searchbar_val demo_typed @ drop (length (searchbar_val demo_typed))
              (autocomplete demo_typed ! i)
          \<and> searchbar_sel (on_keyup demo_env 82 demo_typed) =
            (length (searchbar_val demo_typed),
             length (searchbar_val (on_keyup demo_env 82 demo_typed)))"
    by (rule conjunct1)
  with first have "searchbar_val (on_keyup demo_env 82 demo_typed) =
        searchbar_val demo_typed @ drop (length (searchbar_val demo_typed))
          (autocomplete demo_typed ! 1)
      \<and> searchbar_sel (on_keyup demo_env 82 demo_typed) =
        (length (searchbar_val demo_typed), length (searchbar_val (on_keyup demo_env 82 demo_typed)))"
    by blast
  then have re: "searchbar_val (on_keyup demo_env 82 demo_typed) = ascii ''readme.md''
      \<and> searchbar_sel (on_keyup demo_env 82 demo_typed) = (2, 9)"
    by (simp add: demo_typed_fields ascii_def)
  have n': "(222::nat) \<noteq> 27" "(222::nat) \<noteq> 13" "(222::nat) \<noteq> 8" "(222::nat) \<noteq> 46"
    by simp_all
  have v': "searchbar_val demo_umlaut \<noteq> []" "searchbar_val demo_umlaut \<noteq> oldval demo_umlaut"
    by (simp_all add: demo_umlaut_fields)
  have u1: "name_matches demo_env [0xE4] (0xC4 # ascii ''pfel.md'')"
    by (simp add: name_matches_def demo_env_def sample_toLowerCase_def sample_lower_unit_def
        ascii_def)
  have u0: "\<not> name_matches demo_env [0xE4] (ascii ''notes.md'')"
    by (simp add: name_matches_def demo_env_def sample_toLowerCase_def sample_lower_unit_def
        ascii_def)
  have first': "(1::nat) < length (autocomplete demo_umlaut)
      \<and> name_matches demo_env (searchbar_val demo_umlaut) (autocomplete demo_umlaut ! 1)
      \<and> (\<forall>j < (1::nat).
            \<not> name_matches demo_env (searchbar_val demo_umlaut) (autocomplete demo_umlaut ! j))"
    using u0 u1 by (simp add: demo_umlaut_fields)
  note K' = keyup_autocomplete [of 222 demo_umlaut demo_env, OF n' v']
  from K' have "\<forall>i < length (autocomplete demo_umlaut).
      name_matches demo_env (searchbar_val demo_umlaut) (autocomplete demo_umlaut ! i)
      \<and> (\<forall>j < i.
            \<not> name_matches demo_env (searchbar_val demo_umlaut) (autocomplete demo_umlaut ! j))
      \<longrightarrow> searchbar_val (on_keyup demo_env 222 demo_umlaut) =
            searchbar_val demo_umlaut @ drop (length (searchbar_val demo_umlaut))
              (autocomplete demo_umlaut ! i)
          \<and> searchbar_sel (on_keyup demo_env 222 demo_umlaut) =
            (length (searchbar_val demo_umlaut),
             length (searchbar_val (on_keyup demo_env 222 demo_umlaut)))"
    by (rule conjunct1)
  with first' have "searchbar_val (on_keyup demo_env 222 demo_umlaut) =
        searchbar_val demo_umlaut @ drop (length (searchbar_val demo_umlaut))
          (autocomplete demo_umlaut ! 1)
      \<and> searchbar_sel (on_keyup demo_env 222 demo_umlaut) =
        (length (searchbar_val demo_umlaut),
         length (searchbar_val (on_keyup demo_env 222 demo_umlaut)))"
    by blast
  then have um: "searchbar_val (on_keyup demo_env 222 demo_umlaut) = 0xE4 # ascii ''pfel.md''
      \<and> searchbar_sel (on_keyup demo_env 222 demo_umlaut) = (1, 8)"
    by (simp add: demo_umlaut_fields ascii_def)
  from re um show ?thesis by (simp add: demo_typed_fields demo_umlaut_fields)
qed

subsection \<open>The candidate list\<close>

text \<open>
  C6. The focus listener sets the candidate list to the answer of
  \<open>renderer.getFilesInDirectory()\<close>; the blur listener empties it and resets the stored
  old value to the empty string. The input has the focus from a run of the focus listener
  to the next run of the blur listener, and a new view has no candidates. So after any
  sequence of events and method calls on a new view, the candidate list holds names only
  while the input has the focus.
\<close>

theorem autocomplete_focus_scoped:
  "autocomplete (on_focus e t) = getFilesInDirectory e
   \<and> autocomplete (on_blur t) = [] \<and> oldval (on_blur t) = []
   \<and> searchbar_focused (searchbar_focus e t) \<and> \<not> searchbar_focused (searchbar_blur t)
   \<and> autocomplete (new_toolbar e0 cs ks) = []
   \<and> (autocomplete (run evs (new_toolbar e0 cs ks)) \<noteq> [] \<longrightarrow>
        searchbar_focused (run evs (new_toolbar e0 cs ks)))"
proof -
  have "focus_scoped (run evs (new_toolbar e0 cs ks))"
    unfolding run_def by (rule focus_scoped_fold) (rule focus_scoped_new_toolbar)
  then have "autocomplete (run evs (new_toolbar e0 cs ks)) \<noteq> [] \<longrightarrow>
      searchbar_focused (run evs (new_toolbar e0 cs ks))"
    unfolding focus_scoped_def by blast
  moreover have "autocomplete (on_focus e t) = getFilesInDirectory e"
    by (simp add: on_focus_def Let_def)
  moreover have "autocomplete (on_blur t) = [] \<and> oldval (on_blur t) = []"
    by (simp add: on_blur_def)
  moreover have "searchbar_focused (searchbar_focus e t) \<and> \<not> searchbar_focused (searchbar_blur t)"
    by (simp add: searchbar_focus_def searchbar_blur_def on_focus_def on_blur_def
        call_renderer_def searchbar_select_def Let_def)
  moreover have "autocomplete (new_toolbar e0 cs ks) = []"
    by (simp add: new_toolbar_def Let_def)
  ultimately show ?thesis by blast
qed

theorem autocomplete_focus_scoped_witness:
  "autocomplete (run [(demo_env, Focus)] (new_toolbar demo_env [] [])) =
     map ascii [''notes.md'', ''Readme.md'', ''reading-list.md'']
   \<and> autocomplete (run [(demo_env, Focus)] (new_toolbar demo_env [] [])) \<noteq> []
   \<and> searchbar_focused (run [(demo_env, Focus)] (new_toolbar demo_env [] []))
   \<and> autocomplete (run [(demo_env, Focus), (demo_env, Blur)] (new_toolbar demo_env [] [])) = []"
proof -
  have a: "autocomplete (run [(demo_env, Focus)] (new_toolbar demo_env [] [])) =
      map ascii [''notes.md'', ''Readme.md'', ''reading-list.md'']"
    by (simp add: run_def searchbar_focus_def on_focus_def Let_def demo_env_def)
  then have n: "autocomplete (run [(demo_env, Focus)] (new_toolbar demo_env [] [])) \<noteq> []"
    by simp
  have f: "searchbar_focused (run [(demo_env, Focus)] (new_toolbar demo_env [] []))"
    using autocomplete_focus_scoped [of _ _ demo_env "[]" "[]" "[(demo_env, Focus)]"] n
    by blast
  have b: "autocomplete (run [(demo_env, Focus), (demo_env, Blur)] (new_toolbar demo_env [] []))
      = []"
    by (simp add: run_def searchbar_blur_def on_blur_def)
  from a n f b show ?thesis by blast
qed

end
